theory Spec2Isabelle
  imports Main "HOL-Library.Word"
begin

section \<open>Spirix exceptional-value encoding (src/gpu/spirix_constants.h)\<close>

text \<open>
  The header works on pairs of \<open>int16_t\<close> values (fraction, exponent). Both are
  modelled as 16-bit words: the header only compares them for equality and shifts the
  fraction after a cast to \<open>uint16_t\<close>, so the bit pattern is all that matters. The
  literals \<open>(int16_t)0b...\<close> are the words with those bit patterns.
\<close>

type_synonym int16 = "16 word"
type_synonym c_int = "32 word"

subsection \<open>Literals\<close>

definition SPIRIX_AMBIGUOUS_EXPONENT :: int16 where
  "SPIRIX_AMBIGUOUS_EXPONENT = 0x8000"

definition SPIRIX_ZERO_FRACTION :: int16 where
  "SPIRIX_ZERO_FRACTION = 0x0000"

definition SPIRIX_INFINITY_FRACTION :: int16 where
  "SPIRIX_INFINITY_FRACTION = 0xFFFF"

definition SPIRIX_VANISHED_POS_PREFIX :: int16 where
  "SPIRIX_VANISHED_POS_PREFIX = 0x2000"

definition SPIRIX_VANISHED_NEG_PREFIX :: int16 where
  "SPIRIX_VANISHED_NEG_PREFIX = 0xDFFF"

definition SPIRIX_UNDEF_TRANSFINITE_PLUS_TRANSFINITE :: int16 where
  "SPIRIX_UNDEF_TRANSFINITE_PLUS_TRANSFINITE = 0x1F00"

definition SPIRIX_UNDEF_TRANSFINITE_MINUS_TRANSFINITE :: int16 where
  "SPIRIX_UNDEF_TRANSFINITE_MINUS_TRANSFINITE = 0xE000"

definition SPIRIX_UNDEF_VANISHED_PLUS_VANISHED :: int16 where
  "SPIRIX_UNDEF_VANISHED_PLUS_VANISHED = 0x1E00"

definition SPIRIX_UNDEF_VANISHED_MINUS_VANISHED :: int16 where
  "SPIRIX_UNDEF_VANISHED_MINUS_VANISHED = 0xE100"

definition SPIRIX_UNDEF_TRANSFINITE_PLUS_FINITE :: int16 where
  "SPIRIX_UNDEF_TRANSFINITE_PLUS_FINITE = 0x1C00"

definition SPIRIX_UNDEF_TRANSFINITE_MINUS_FINITE :: int16 where
  "SPIRIX_UNDEF_TRANSFINITE_MINUS_FINITE = 0xE300"

definition SPIRIX_UNDEF_FINITE_PLUS_TRANSFINITE :: int16 where
  "SPIRIX_UNDEF_FINITE_PLUS_TRANSFINITE = 0x1800"

definition SPIRIX_UNDEF_FINITE_MINUS_TRANSFINITE :: int16 where
  "SPIRIX_UNDEF_FINITE_MINUS_TRANSFINITE = 0xE700"

definition SPIRIX_UNDEF_TRANSFINITE_DIV_TRANSFINITE :: int16 where
  "SPIRIX_UNDEF_TRANSFINITE_DIV_TRANSFINITE = 0x1600"

definition SPIRIX_UNDEF_NEGLIGIBLE_DIV_NEGLIGIBLE :: int16 where
  "SPIRIX_UNDEF_NEGLIGIBLE_DIV_NEGLIGIBLE = 0xE900"

definition SPIRIX_UNDEF_NEGLIGIBLE_MUL_TRANSFINITE :: int16 where
  "SPIRIX_UNDEF_NEGLIGIBLE_MUL_TRANSFINITE = 0x1000"

definition SPIRIX_UNDEF_TRANSFINITE_MUL_NEGLIGIBLE :: int16 where
  "SPIRIX_UNDEF_TRANSFINITE_MUL_NEGLIGIBLE = 0xEF00"

definition SPIRIX_UNDEF_SIGN_INDETERMINATE :: int16 where
  "SPIRIX_UNDEF_SIGN_INDETERMINATE = 0xE400"

definition SPIRIX_UNDEF_TRANSFINITE_POWER :: int16 where
  "SPIRIX_UNDEF_TRANSFINITE_POWER = 0x0F00"

definition SPIRIX_UNDEF_NEGLIGIBLE_POWER :: int16 where
  "SPIRIX_UNDEF_NEGLIGIBLE_POWER = 0xF000"

definition SPIRIX_UNDEF_POWER_TRANSFINITE :: int16 where
  "SPIRIX_UNDEF_POWER_TRANSFINITE = 0x0E00"

definition SPIRIX_UNDEF_POWER_NEGLIGIBLE :: int16 where
  "SPIRIX_UNDEF_POWER_NEGLIGIBLE = 0xF100"

definition SPIRIX_UNDEF_NEGATIVE_POWER :: int16 where
  "SPIRIX_UNDEF_NEGATIVE_POWER = 0x0D00"

definition SPIRIX_UNDEF_SQRT_NEGATIVE :: int16 where
  "SPIRIX_UNDEF_SQRT_NEGATIVE = 0xF600"

definition SPIRIX_UNDEF_GENERAL :: int16 where
  "SPIRIX_UNDEF_GENERAL = 0xFE00"

text \<open>
  The twenty \<open>SPIRIX_UNDEF_*\<close> literals in the order of the header, and the four other
  fraction literals (Zero, Infinity and the two Vanished prefixes).
\<close>

definition SPIRIX_UNDEF_literals :: "int16 list" where
  "SPIRIX_UNDEF_literals =
    [SPIRIX_UNDEF_TRANSFINITE_PLUS_TRANSFINITE, SPIRIX_UNDEF_TRANSFINITE_MINUS_TRANSFINITE,
     SPIRIX_UNDEF_VANISHED_PLUS_VANISHED, SPIRIX_UNDEF_VANISHED_MINUS_VANISHED,
     SPIRIX_UNDEF_TRANSFINITE_PLUS_FINITE, SPIRIX_UNDEF_TRANSFINITE_MINUS_FINITE,
     SPIRIX_UNDEF_FINITE_PLUS_TRANSFINITE, SPIRIX_UNDEF_FINITE_MINUS_TRANSFINITE,
     SPIRIX_UNDEF_TRANSFINITE_DIV_TRANSFINITE, SPIRIX_UNDEF_NEGLIGIBLE_DIV_NEGLIGIBLE,
     SPIRIX_UNDEF_NEGLIGIBLE_MUL_TRANSFINITE, SPIRIX_UNDEF_TRANSFINITE_MUL_NEGLIGIBLE,
     SPIRIX_UNDEF_SIGN_INDETERMINATE,
     SPIRIX_UNDEF_TRANSFINITE_POWER, SPIRIX_UNDEF_NEGLIGIBLE_POWER,
     SPIRIX_UNDEF_POWER_TRANSFINITE, SPIRIX_UNDEF_POWER_NEGLIGIBLE,
     SPIRIX_UNDEF_NEGATIVE_POWER, SPIRIX_UNDEF_SQRT_NEGATIVE,
     SPIRIX_UNDEF_GENERAL]"

definition SPIRIX_other_literals :: "int16 list" where
  "SPIRIX_other_literals =
    [SPIRIX_ZERO_FRACTION, SPIRIX_INFINITY_FRACTION,
     SPIRIX_VANISHED_POS_PREFIX, SPIRIX_VANISHED_NEG_PREFIX]"

subsection \<open>Detection helpers\<close>

text \<open>
  The C predicates return \<open>int\<close> 0 or 1 (the value of \<open>&&\<close>, \<open>||\<close>, \<open>!\<close>, \<open>==\<close>);
  they are modelled as \<open>bool\<close>. \<open>top3\<close> is the local variable of
  \<open>spirix_is_undefined\<close>: \<open>(uint16_t)fraction >> 13\<close>, a logical shift of the 16-bit
  pattern.
\<close>

definition top3 :: "int16 \<Rightarrow> int16" where
  "top3 fraction = drop_bit 13 fraction"

definition spirix_is_zero :: "int16 \<Rightarrow> int16 \<Rightarrow> bool" where
  "spirix_is_zero fraction exponent \<longleftrightarrow>
     fraction = SPIRIX_ZERO_FRACTION \<and> exponent = SPIRIX_AMBIGUOUS_EXPONENT"

definition spirix_is_infinity :: "int16 \<Rightarrow> int16 \<Rightarrow> bool" where
  "spirix_is_infinity fraction exponent \<longleftrightarrow>
     fraction = SPIRIX_INFINITY_FRACTION \<and> exponent = SPIRIX_AMBIGUOUS_EXPONENT"

definition spirix_is_undefined :: "int16 \<Rightarrow> int16 \<Rightarrow> bool" where
  "spirix_is_undefined fraction exponent =
     (if exponent \<noteq> SPIRIX_AMBIGUOUS_EXPONENT then False
      else (top3 fraction = 0 \<or> top3 fraction = 7) \<and>
           fraction \<noteq> SPIRIX_ZERO_FRACTION \<and>
           fraction \<noteq> SPIRIX_INFINITY_FRACTION)"

definition spirix_is_finite :: "int16 \<Rightarrow> int16 \<Rightarrow> bool" where
  "spirix_is_finite fraction exponent =
     (if exponent = SPIRIX_AMBIGUOUS_EXPONENT
      then \<not> spirix_is_zero fraction exponent \<and>
           \<not> spirix_is_infinity fraction exponent \<and>
           \<not> spirix_is_undefined fraction exponent
      else True)"

subsection \<open>Creation helpers\<close>

text \<open>
  The creation helpers and the resolver write through \<open>int16_t *\<close> parameters. The
  model is an explicit store from addresses to 16-bit values; a pointer is an address,
  and \<open>*p = v\<close> is the store update at \<open>p\<close>. The assignments are kept in the order of
  the source, so the model also says what happens when two pointers are equal. Pointers
  are assumed valid (dereferencing an invalid one is undefined in C).
\<close>

type_synonym addr = nat
type_synonym store = "addr \<Rightarrow> int16"

definition spirix_create_zero :: "addr \<Rightarrow> addr \<Rightarrow> store \<Rightarrow> store" where
  "spirix_create_zero fraction exponent s =
     (s(fraction := SPIRIX_ZERO_FRACTION))(exponent := SPIRIX_AMBIGUOUS_EXPONENT)"

definition spirix_create_infinity :: "addr \<Rightarrow> addr \<Rightarrow> c_int \<Rightarrow> store \<Rightarrow> store" where
  "spirix_create_infinity fraction exponent positive s =
     (s(fraction := SPIRIX_INFINITY_FRACTION))(exponent := SPIRIX_AMBIGUOUS_EXPONENT)"

definition spirix_create_undefined :: "addr \<Rightarrow> addr \<Rightarrow> store \<Rightarrow> store" where
  "spirix_create_undefined fraction exponent s =
     (s(fraction := SPIRIX_UNDEF_GENERAL))(exponent := SPIRIX_AMBIGUOUS_EXPONENT)"

definition spirix_create_undefined_zero_div_zero :: "addr \<Rightarrow> addr \<Rightarrow> store \<Rightarrow> store" where
  "spirix_create_undefined_zero_div_zero fraction exponent s =
     (s(fraction := SPIRIX_UNDEF_NEGLIGIBLE_DIV_NEGLIGIBLE))(exponent := SPIRIX_AMBIGUOUS_EXPONENT)"

definition spirix_create_undefined_inf_minus_inf :: "addr \<Rightarrow> addr \<Rightarrow> store \<Rightarrow> store" where
  "spirix_create_undefined_inf_minus_inf fraction exponent s =
     (s(fraction := SPIRIX_UNDEF_TRANSFINITE_MINUS_TRANSFINITE))(exponent := SPIRIX_AMBIGUOUS_EXPONENT)"

definition spirix_create_undefined_inf_times_zero :: "addr \<Rightarrow> addr \<Rightarrow> store \<Rightarrow> store" where
  "spirix_create_undefined_inf_times_zero fraction exponent s =
     (s(fraction := SPIRIX_UNDEF_TRANSFINITE_MUL_NEGLIGIBLE))(exponent := SPIRIX_AMBIGUOUS_EXPONENT)"

subsection \<open>Division edge cases\<close>

text \<open>
  \<open>spirix_gpu_safe_divide\<close>, branch by branch in the order of the source. The body after
  the last branch is a comment only, so the function returns there without a write.

  In the branch for Infinity / Infinity the source assigns the fraction through the
  parameter \<open>result_frac\<close> and the exponent through \<open>*result_exponent\<close>. The function
  has no parameter or local of that name (its exponent parameter is \<open>result_exp\<close>) and
  the header declares none, so the identifier refers to whatever the including
  translation unit declares at file scope. It is the first parameter of the model: the
  address that \<open>result_exponent\<close> designates there.
\<close>

definition spirix_gpu_safe_divide ::
  "addr \<Rightarrow> int16 \<Rightarrow> int16 \<Rightarrow> int16 \<Rightarrow> int16 \<Rightarrow> addr \<Rightarrow> addr \<Rightarrow> store \<Rightarrow> store" where
  "spirix_gpu_safe_divide result_exponent a_frac a_exp b_frac b_exp result_frac result_exp s =
     (let a_is_zero = spirix_is_zero a_frac a_exp;
          b_is_zero = spirix_is_zero b_frac b_exp;
          a_is_inf = spirix_is_infinity a_frac a_exp;
          b_is_inf = spirix_is_infinity b_frac b_exp
      in if a_is_zero \<and> b_is_zero then
           spirix_create_undefined_zero_div_zero result_frac result_exp s
         else if a_is_inf \<and> b_is_inf then
           (s(result_frac := SPIRIX_UNDEF_TRANSFINITE_DIV_TRANSFINITE))
             (result_exponent := SPIRIX_AMBIGUOUS_EXPONENT)
         else if b_is_zero \<and> \<not> a_is_zero then
           spirix_create_infinity result_frac result_exp 1 s
         else if a_is_zero then
           spirix_create_zero result_frac result_exp s
         else s)"

subsection \<open>The Vanished category\<close>

text \<open>
  Modelled from the spec: the predicate \<open>is_vanished\<close>. The header has the two
  Vanished prefixes but no predicate for the category; the specification describes it
  as the check of the fraction's tag for \<open>001\<close> or its mirror \<open>110\<close>, a category that
  only exists under the sentinel exponent.
\<close>

definition spirix_is_vanished :: "int16 \<Rightarrow> int16 \<Rightarrow> bool" where
  "spirix_is_vanished fraction exponent \<longleftrightarrow>
     exponent = SPIRIX_AMBIGUOUS_EXPONENT \<and> (top3 fraction = 1 \<or> top3 fraction = 6)"

section \<open>Facts about the literals\<close>

lemmas spirix_literal_defs =
  SPIRIX_AMBIGUOUS_EXPONENT_def SPIRIX_ZERO_FRACTION_def SPIRIX_INFINITY_FRACTION_def
  SPIRIX_VANISHED_POS_PREFIX_def SPIRIX_VANISHED_NEG_PREFIX_def
  SPIRIX_UNDEF_TRANSFINITE_PLUS_TRANSFINITE_def SPIRIX_UNDEF_TRANSFINITE_MINUS_TRANSFINITE_def
  SPIRIX_UNDEF_VANISHED_PLUS_VANISHED_def SPIRIX_UNDEF_VANISHED_MINUS_VANISHED_def
  SPIRIX_UNDEF_TRANSFINITE_PLUS_FINITE_def SPIRIX_UNDEF_TRANSFINITE_MINUS_FINITE_def
  SPIRIX_UNDEF_FINITE_PLUS_TRANSFINITE_def SPIRIX_UNDEF_FINITE_MINUS_TRANSFINITE_def
  SPIRIX_UNDEF_TRANSFINITE_DIV_TRANSFINITE_def SPIRIX_UNDEF_NEGLIGIBLE_DIV_NEGLIGIBLE_def
  SPIRIX_UNDEF_NEGLIGIBLE_MUL_TRANSFINITE_def SPIRIX_UNDEF_TRANSFINITE_MUL_NEGLIGIBLE_def
  SPIRIX_UNDEF_SIGN_INDETERMINATE_def
  SPIRIX_UNDEF_TRANSFINITE_POWER_def SPIRIX_UNDEF_NEGLIGIBLE_POWER_def
  SPIRIX_UNDEF_POWER_TRANSFINITE_def SPIRIX_UNDEF_POWER_NEGLIGIBLE_def
  SPIRIX_UNDEF_NEGATIVE_POWER_def SPIRIX_UNDEF_SQRT_NEGATIVE_def
  SPIRIX_UNDEF_GENERAL_def

lemma top3_zero_fraction: "top3 SPIRIX_ZERO_FRACTION = 0"
  by (simp add: top3_def SPIRIX_ZERO_FRACTION_def)

lemma top3_infinity_fraction: "top3 SPIRIX_INFINITY_FRACTION = 7"
  by (simp add: top3_def SPIRIX_INFINITY_FRACTION_def)

lemma zero_literal_is_zero:
  "spirix_is_zero SPIRIX_ZERO_FRACTION SPIRIX_AMBIGUOUS_EXPONENT"
  by (simp add: spirix_is_zero_def)

lemma infinity_literal_is_infinity:
  "spirix_is_infinity SPIRIX_INFINITY_FRACTION SPIRIX_AMBIGUOUS_EXPONENT"
  by (simp add: spirix_is_infinity_def)

lemma zero_is_not_infinity:
  "spirix_is_zero fraction exponent \<Longrightarrow> \<not> spirix_is_infinity fraction exponent"
  by (simp add: spirix_is_zero_def spirix_is_infinity_def
      SPIRIX_ZERO_FRACTION_def SPIRIX_INFINITY_FRACTION_def)

lemma undefined_is_not_zero:
  "spirix_is_undefined fraction exponent \<Longrightarrow> \<not> spirix_is_zero fraction exponent"
  by (simp add: spirix_is_undefined_def spirix_is_zero_def split: if_splits)

lemma zero_div_zero_literal_is_undefined:
  "spirix_is_undefined SPIRIX_UNDEF_NEGLIGIBLE_DIV_NEGLIGIBLE SPIRIX_AMBIGUOUS_EXPONENT"
  by (simp add: spirix_is_undefined_def top3_def spirix_literal_defs)

lemma general_literal_is_undefined:
  "spirix_is_undefined SPIRIX_UNDEF_GENERAL SPIRIX_AMBIGUOUS_EXPONENT"
  by (simp add: spirix_is_undefined_def top3_def spirix_literal_defs)

section \<open>Classifier\<close>

text \<open>
  Claim C4. With an exponent other than the sentinel, \<open>spirix_is_finite\<close> is true
  whatever the fraction is, and \<open>spirix_is_zero\<close>, \<open>spirix_is_infinity\<close> and
  \<open>spirix_is_undefined\<close> are all false.
\<close>

theorem normal_exponent_is_finite:
  assumes "exponent \<noteq> SPIRIX_AMBIGUOUS_EXPONENT"
  shows "spirix_is_finite fraction exponent \<and>
         \<not> spirix_is_zero fraction exponent \<and>
         \<not> spirix_is_infinity fraction exponent \<and>
         \<not> spirix_is_undefined fraction exponent"
  using assms
  by (simp add: spirix_is_finite_def spirix_is_zero_def spirix_is_infinity_def
      spirix_is_undefined_def)

theorem normal_exponent_is_finite_witness:
  "(0 :: int16) \<noteq> SPIRIX_AMBIGUOUS_EXPONENT \<and>
   spirix_is_finite SPIRIX_UNDEF_GENERAL 0 \<and>
   \<not> spirix_is_zero SPIRIX_UNDEF_GENERAL 0 \<and>
   \<not> spirix_is_infinity SPIRIX_UNDEF_GENERAL 0 \<and>
   \<not> spirix_is_undefined SPIRIX_UNDEF_GENERAL 0"
proof -
  have ne: "(0 :: int16) \<noteq> SPIRIX_AMBIGUOUS_EXPONENT"
    by (simp add: SPIRIX_AMBIGUOUS_EXPONENT_def)
  show ?thesis
    using ne normal_exponent_is_finite [OF ne, of SPIRIX_UNDEF_GENERAL] by simp
qed

text \<open>
  Claim C2, as stated: under the sentinel exponent exactly one of \<open>spirix_is_zero\<close>,
  \<open>spirix_is_infinity\<close>, \<open>spirix_is_vanished\<close>, \<open>spirix_is_undefined\<close> holds. The
  number of predicates that hold is written as a sum of \<open>of_bool\<close>. The statement fails
  for the fraction \<open>0x4000\<close> (tag \<open>010\<close>): none of the four holds.
\<close>

theorem sentinel_partition_counterexample:
  "(of_bool (spirix_is_zero 0x4000 SPIRIX_AMBIGUOUS_EXPONENT) +
    of_bool (spirix_is_infinity 0x4000 SPIRIX_AMBIGUOUS_EXPONENT) +
    of_bool (spirix_is_vanished 0x4000 SPIRIX_AMBIGUOUS_EXPONENT) +
    of_bool (spirix_is_undefined 0x4000 SPIRIX_AMBIGUOUS_EXPONENT) :: nat) = 0"
  by (simp add: spirix_is_zero_def spirix_is_infinity_def spirix_is_vanished_def
      spirix_is_undefined_def top3_def spirix_literal_defs)

text \<open>
  Claim C2, amended. Under the sentinel exponent no two of the four predicates hold
  together, and exactly one holds if and only if the fraction's tag is \<open>000\<close>, \<open>001\<close>,
  \<open>110\<close> or \<open>111\<close>; with a tag \<open>010\<close>, \<open>011\<close>, \<open>100\<close> or \<open>101\<close> none holds.
\<close>

theorem sentinel_categories_exclusive:
  assumes "exponent = SPIRIX_AMBIGUOUS_EXPONENT"
  shows "(of_bool (spirix_is_zero fraction exponent) +
          of_bool (spirix_is_infinity fraction exponent) +
          of_bool (spirix_is_vanished fraction exponent) +
          of_bool (spirix_is_undefined fraction exponent) :: nat) \<le> 1 \<and>
         ((of_bool (spirix_is_zero fraction exponent) +
           of_bool (spirix_is_infinity fraction exponent) +
           of_bool (spirix_is_vanished fraction exponent) +
           of_bool (spirix_is_undefined fraction exponent) :: nat) = 1 \<longleftrightarrow>
          top3 fraction = 0 \<or> top3 fraction = 1 \<or> top3 fraction = 6 \<or> top3 fraction = 7)"
  using assms top3_zero_fraction top3_infinity_fraction
  by (auto simp add: spirix_is_zero_def spirix_is_infinity_def spirix_is_vanished_def
      spirix_is_undefined_def)

theorem sentinel_categories_exclusive_witness:
  "(of_bool (spirix_is_zero 0x2ABC SPIRIX_AMBIGUOUS_EXPONENT) +
    of_bool (spirix_is_infinity 0x2ABC SPIRIX_AMBIGUOUS_EXPONENT) +
    of_bool (spirix_is_vanished 0x2ABC SPIRIX_AMBIGUOUS_EXPONENT) +
    of_bool (spirix_is_undefined 0x2ABC SPIRIX_AMBIGUOUS_EXPONENT) :: nat) = 1 \<and>
   top3 0x2ABC = 1"
proof -
  have tag: "top3 0x2ABC = 1"
    by (simp add: top3_def)
  from sentinel_categories_exclusive [OF refl, of "0x2ABC"] tag show ?thesis
    by blast
qed

text \<open>
  Claim C3, as stated: a Vanished-tagged fraction with the sentinel exponent is not
  finite. The statement fails for the prefix \<open>0x2000\<close> (tag \<open>001\<close>):
  \<open>spirix_is_finite\<close> only excludes Zero, Infinity and Undefined, so it is true there.
\<close>

theorem vanished_not_finite_counterexample:
  "top3 SPIRIX_VANISHED_POS_PREFIX = 1 \<and>
   spirix_is_finite SPIRIX_VANISHED_POS_PREFIX SPIRIX_AMBIGUOUS_EXPONENT"
  by (simp add: spirix_is_finite_def spirix_is_zero_def spirix_is_infinity_def
      spirix_is_undefined_def top3_def spirix_literal_defs)

text \<open>
  Claim C3, amended. A fraction whose tag is \<open>001\<close> or \<open>110\<close> is neither the Zero nor
  the Infinity literal, and paired with the sentinel exponent it is not classified
  Undefined (nor Zero, nor Infinity); \<open>spirix_is_finite\<close> therefore returns true on it.
\<close>

theorem vanished_not_undefined_but_finite:
  assumes "top3 fraction = 1 \<or> top3 fraction = 6"
  shows "fraction \<noteq> SPIRIX_ZERO_FRACTION \<and> fraction \<noteq> SPIRIX_INFINITY_FRACTION \<and>
         \<not> spirix_is_undefined fraction SPIRIX_AMBIGUOUS_EXPONENT \<and>
         \<not> spirix_is_zero fraction SPIRIX_AMBIGUOUS_EXPONENT \<and>
         \<not> spirix_is_infinity fraction SPIRIX_AMBIGUOUS_EXPONENT \<and>
         spirix_is_finite fraction SPIRIX_AMBIGUOUS_EXPONENT"
  using assms top3_zero_fraction top3_infinity_fraction
  by (auto simp add: spirix_is_finite_def spirix_is_zero_def spirix_is_infinity_def
      spirix_is_undefined_def)

theorem vanished_not_undefined_but_finite_witness:
  "top3 SPIRIX_VANISHED_NEG_PREFIX = 6 \<and>
   \<not> spirix_is_undefined SPIRIX_VANISHED_NEG_PREFIX SPIRIX_AMBIGUOUS_EXPONENT \<and>
   spirix_is_finite SPIRIX_VANISHED_NEG_PREFIX SPIRIX_AMBIGUOUS_EXPONENT"
proof -
  have tag: "top3 SPIRIX_VANISHED_NEG_PREFIX = 6"
    by (simp add: top3_def SPIRIX_VANISHED_NEG_PREFIX_def)
  then have "top3 SPIRIX_VANISHED_NEG_PREFIX = 1 \<or> top3 SPIRIX_VANISHED_NEG_PREFIX = 6" ..
  from vanished_not_undefined_but_finite [OF this] tag show ?thesis
    by blast
qed

text \<open>
  Claim C8. The twenty \<open>SPIRIX_UNDEF_*\<close> literals are pairwise distinct, none of them is
  the Zero literal, the Infinity literal or a Vanished prefix, and each of them with the
  sentinel exponent satisfies \<open>spirix_is_undefined\<close>.
\<close>

theorem undef_literals_distinct_and_undefined:
  "length SPIRIX_UNDEF_literals = 20 \<and>
   distinct SPIRIX_UNDEF_literals \<and>
   set SPIRIX_UNDEF_literals \<inter> set SPIRIX_other_literals = {} \<and>
   list_all (\<lambda>f. spirix_is_undefined f SPIRIX_AMBIGUOUS_EXPONENT) SPIRIX_UNDEF_literals"
  by (simp add: SPIRIX_UNDEF_literals_def SPIRIX_other_literals_def spirix_is_undefined_def
      top3_def spirix_literal_defs)

section \<open>Constructor\<close>

text \<open>
  Claim C9. \<open>spirix_create_infinity\<close> does not depend on its argument \<open>positive\<close>: for
  any two values of it the resulting stores are equal, the store in which the Infinity
  literal was written through \<open>fraction\<close> and then the sentinel through \<open>exponent\<close>.
\<close>

theorem create_infinity_ignores_sign:
  "spirix_create_infinity fraction exponent p1 s =
     spirix_create_infinity fraction exponent p2 s \<and>
   spirix_create_infinity fraction exponent p1 s =
     (s(fraction := SPIRIX_INFINITY_FRACTION))(exponent := SPIRIX_AMBIGUOUS_EXPONENT) \<and>
   spirix_create_infinity fraction exponent p2 s exponent = SPIRIX_AMBIGUOUS_EXPONENT"
  by (simp add: spirix_create_infinity_def)

section \<open>Division edge cases\<close>

lemma safe_divide_zero_zero:
  assumes "spirix_is_zero a_frac a_exp" and "spirix_is_zero b_frac b_exp"
  shows "spirix_gpu_safe_divide result_exponent a_frac a_exp b_frac b_exp
           result_frac result_exp s =
         (s(result_frac := SPIRIX_UNDEF_NEGLIGIBLE_DIV_NEGLIGIBLE))
           (result_exp := SPIRIX_AMBIGUOUS_EXPONENT)"
  using assms
  by (simp add: spirix_gpu_safe_divide_def spirix_create_undefined_zero_div_zero_def)

lemma safe_divide_inf_inf:
  assumes "spirix_is_infinity a_frac a_exp" and "spirix_is_infinity b_frac b_exp"
  shows "spirix_gpu_safe_divide result_exponent a_frac a_exp b_frac b_exp
           result_frac result_exp s =
         (s(result_frac := SPIRIX_UNDEF_TRANSFINITE_DIV_TRANSFINITE))
           (result_exponent := SPIRIX_AMBIGUOUS_EXPONENT)"
proof -
  from assms(1) have "\<not> spirix_is_zero a_frac a_exp"
    using zero_is_not_infinity by blast
  with assms show ?thesis
    by (simp add: spirix_gpu_safe_divide_def)
qed

lemma safe_divide_by_zero:
  assumes "spirix_is_zero b_frac b_exp" and "\<not> spirix_is_zero a_frac a_exp"
  shows "spirix_gpu_safe_divide result_exponent a_frac a_exp b_frac b_exp
           result_frac result_exp s =
         (s(result_frac := SPIRIX_INFINITY_FRACTION))
           (result_exp := SPIRIX_AMBIGUOUS_EXPONENT)"
proof -
  from assms(1) have "\<not> spirix_is_infinity b_frac b_exp"
    by (rule zero_is_not_infinity)
  with assms show ?thesis
    by (simp add: spirix_gpu_safe_divide_def spirix_create_infinity_def)
qed

lemma finite_not_zero_not_infinity:
  assumes "spirix_is_finite fraction exponent"
  shows "\<not> spirix_is_zero fraction exponent \<and> \<not> spirix_is_infinity fraction exponent"
  using assms
  by (cases "exponent = SPIRIX_AMBIGUOUS_EXPONENT")
     (simp_all add: spirix_is_finite_def spirix_is_zero_def spirix_is_infinity_def)

text \<open>
  Claim C1. For Infinity / Infinity the resolver should leave the Undefined
  (transfinite / transfinite) literal in \<open>*result_frac\<close> and the sentinel in
  \<open>*result_exp\<close>. The source writes the sentinel through \<open>result_exponent\<close> instead.
  Evaluated with \<open>result_frac\<close> at address 0, \<open>result_exp\<close> at address 1 and
  \<open>result_exponent\<close> at address 2 of a store of zeros: the fraction is written, the
  sentinel goes to address 2, \<open>*result_exp\<close> keeps its old value 0, and the pair
  (\<open>*result_frac\<close>, \<open>*result_exp\<close>) is classified finite, not Undefined.
\<close>

theorem safe_divide_inf_inf_exponent_not_written:
  "spirix_is_infinity SPIRIX_INFINITY_FRACTION SPIRIX_AMBIGUOUS_EXPONENT \<and>
   (let s' = spirix_gpu_safe_divide 2
               SPIRIX_INFINITY_FRACTION SPIRIX_AMBIGUOUS_EXPONENT
               SPIRIX_INFINITY_FRACTION SPIRIX_AMBIGUOUS_EXPONENT 0 1 (\<lambda>_. 0)
    in s' 0 = SPIRIX_UNDEF_TRANSFINITE_DIV_TRANSFINITE \<and>
       s' 1 = 0 \<and>
       s' 2 = SPIRIX_AMBIGUOUS_EXPONENT \<and>
       \<not> spirix_is_undefined (s' 0) (s' 1) \<and>
       spirix_is_finite (s' 0) (s' 1))"
  by (simp add: spirix_gpu_safe_divide_def spirix_is_zero_def spirix_is_infinity_def
      spirix_is_undefined_def spirix_is_finite_def Let_def
      SPIRIX_ZERO_FRACTION_def SPIRIX_INFINITY_FRACTION_def SPIRIX_AMBIGUOUS_EXPONENT_def
      SPIRIX_UNDEF_TRANSFINITE_DIV_TRANSFINITE_def)

text \<open>
  Claim C5. When both operands are classified Zero, the resolver writes
  \<open>SPIRIX_UNDEF_NEGLIGIBLE_DIV_NEGLIGIBLE\<close> through \<open>result_frac\<close> and then the sentinel
  through \<open>result_exp\<close>; with two distinct result locations the pair read back is that
  literal with the sentinel, and it is classified Undefined.
\<close>

theorem safe_divide_zero_by_zero:
  assumes "spirix_is_zero a_frac a_exp" and "spirix_is_zero b_frac b_exp"
  shows "spirix_gpu_safe_divide result_exponent a_frac a_exp b_frac b_exp
           result_frac result_exp s =
           (s(result_frac := SPIRIX_UNDEF_NEGLIGIBLE_DIV_NEGLIGIBLE))
             (result_exp := SPIRIX_AMBIGUOUS_EXPONENT) \<and>
         (result_frac \<noteq> result_exp \<longrightarrow>
           (let s' = spirix_gpu_safe_divide result_exponent a_frac a_exp b_frac b_exp
                       result_frac result_exp s
            in s' result_frac = SPIRIX_UNDEF_NEGLIGIBLE_DIV_NEGLIGIBLE \<and>
               s' result_exp = SPIRIX_AMBIGUOUS_EXPONENT \<and>
               spirix_is_undefined (s' result_frac) (s' result_exp)))"
  using safe_divide_zero_zero [OF assms] zero_div_zero_literal_is_undefined
  by simp

theorem safe_divide_zero_by_zero_witness:
  "spirix_is_zero SPIRIX_ZERO_FRACTION SPIRIX_AMBIGUOUS_EXPONENT \<and>
   (let s' = spirix_gpu_safe_divide 2
               SPIRIX_ZERO_FRACTION SPIRIX_AMBIGUOUS_EXPONENT
               SPIRIX_ZERO_FRACTION SPIRIX_AMBIGUOUS_EXPONENT 0 1 (\<lambda>_. 0)
    in s' 0 = SPIRIX_UNDEF_NEGLIGIBLE_DIV_NEGLIGIBLE \<and>
       s' 1 = SPIRIX_AMBIGUOUS_EXPONENT \<and>
       spirix_is_undefined (s' 0) (s' 1))"
proof -
  have ne: "(0 :: addr) \<noteq> 1" by simp
  from safe_divide_zero_by_zero
         [OF zero_literal_is_zero zero_literal_is_zero, of 2 0 1 "\<lambda>_. 0"]
       ne zero_literal_is_zero
  show ?thesis by blast
qed

text \<open>
  Claim C6. When the denominator is classified Zero and the numerator is not, the
  resolver writes \<open>SPIRIX_INFINITY_FRACTION\<close> through \<open>result_frac\<close> and then the
  sentinel through \<open>result_exp\<close>; with two distinct result locations the pair read back
  is classified Infinity.
\<close>

theorem safe_divide_nonzero_by_zero:
  assumes "spirix_is_zero b_frac b_exp" and "\<not> spirix_is_zero a_frac a_exp"
  shows "spirix_gpu_safe_divide result_exponent a_frac a_exp b_frac b_exp
           result_frac result_exp s =
           (s(result_frac := SPIRIX_INFINITY_FRACTION))
             (result_exp := SPIRIX_AMBIGUOUS_EXPONENT) \<and>
         (result_frac \<noteq> result_exp \<longrightarrow>
           (let s' = spirix_gpu_safe_divide result_exponent a_frac a_exp b_frac b_exp
                       result_frac result_exp s
            in s' result_frac = SPIRIX_INFINITY_FRACTION \<and>
               s' result_exp = SPIRIX_AMBIGUOUS_EXPONENT \<and>
               spirix_is_infinity (s' result_frac) (s' result_exp)))"
  using safe_divide_by_zero [OF assms] infinity_literal_is_infinity
  by simp

theorem safe_divide_nonzero_by_zero_witness:
  "spirix_is_zero SPIRIX_ZERO_FRACTION SPIRIX_AMBIGUOUS_EXPONENT \<and>
   \<not> spirix_is_zero 5 0 \<and>
   (let s' = spirix_gpu_safe_divide 2 5 0
               SPIRIX_ZERO_FRACTION SPIRIX_AMBIGUOUS_EXPONENT 0 1 (\<lambda>_. 0)
    in s' 0 = SPIRIX_INFINITY_FRACTION \<and>
       s' 1 = SPIRIX_AMBIGUOUS_EXPONENT \<and>
       spirix_is_infinity (s' 0) (s' 1))"
proof -
  have ne: "(0 :: addr) \<noteq> 1" by simp
  have nz: "\<not> spirix_is_zero 5 0"
    by (simp add: spirix_is_zero_def SPIRIX_ZERO_FRACTION_def)
  from safe_divide_nonzero_by_zero [OF zero_literal_is_zero nz, of 2 0 1 "\<lambda>_. 0"]
       ne nz zero_literal_is_zero
  show ?thesis by blast
qed

text \<open>
  Claim C7. When both operands are classified finite by \<open>spirix_is_finite\<close>, the
  resolver takes none of its branches and writes nothing: the store it returns is the
  store it was given, so \<open>*result_frac\<close> and \<open>*result_exp\<close> are unchanged. The
  operands are passed by value and are not part of the store.
\<close>

theorem safe_divide_finite_no_write:
  assumes "spirix_is_finite a_frac a_exp" and "spirix_is_finite b_frac b_exp"
  shows "spirix_gpu_safe_divide result_exponent a_frac a_exp b_frac b_exp
           result_frac result_exp s = s"
  using finite_not_zero_not_infinity [OF assms(1)] finite_not_zero_not_infinity [OF assms(2)]
  by (simp add: spirix_gpu_safe_divide_def)

theorem safe_divide_finite_no_write_witness:
  "spirix_is_finite 5 0 \<and> spirix_is_finite 3 0 \<and>
   spirix_gpu_safe_divide 2 5 0 3 0 0 1 (\<lambda>a. if a = 0 then 0x1234 else 0x5678) =
     (\<lambda>a. if a = 0 then 0x1234 else 0x5678)"
proof -
  have ne: "(0 :: int16) \<noteq> SPIRIX_AMBIGUOUS_EXPONENT"
    by (simp add: SPIRIX_AMBIGUOUS_EXPONENT_def)
  then have f5: "spirix_is_finite 5 0" and f3: "spirix_is_finite 3 0"
    by (simp_all add: spirix_is_finite_def)
  from safe_divide_finite_no_write [OF f5 f3] f5 f3 show ?thesis
    by blast
qed

text \<open>
  Claim C10. When the numerator is classified Undefined (any subtype) and the
  denominator is classified Zero, the resolver writes the Infinity literal and the
  sentinel: with two distinct result locations the pair read back is classified
  Infinity and no longer Undefined.
\<close>

theorem safe_divide_undefined_by_zero:
  assumes "spirix_is_undefined a_frac a_exp" and "spirix_is_zero b_frac b_exp"
  shows "spirix_gpu_safe_divide result_exponent a_frac a_exp b_frac b_exp
           result_frac result_exp s =
           (s(result_frac := SPIRIX_INFINITY_FRACTION))
             (result_exp := SPIRIX_AMBIGUOUS_EXPONENT) \<and>
         (result_frac \<noteq> result_exp \<longrightarrow>
           (let s' = spirix_gpu_safe_divide result_exponent a_frac a_exp b_frac b_exp
                       result_frac result_exp s
            in s' result_frac = SPIRIX_INFINITY_FRACTION \<and>
               s' result_exp = SPIRIX_AMBIGUOUS_EXPONENT \<and>
               spirix_is_infinity (s' result_frac) (s' result_exp) \<and>
               \<not> spirix_is_undefined (s' result_frac) (s' result_exp)))"
proof -
  from assms(1) have "\<not> spirix_is_zero a_frac a_exp"
    by (rule undefined_is_not_zero)
  from safe_divide_by_zero [OF assms(2) this] infinity_literal_is_infinity
  show ?thesis
    by (simp add: spirix_is_undefined_def)
qed

theorem safe_divide_undefined_by_zero_witness:
  "spirix_is_undefined SPIRIX_UNDEF_NEGLIGIBLE_DIV_NEGLIGIBLE SPIRIX_AMBIGUOUS_EXPONENT \<and>
   spirix_is_zero SPIRIX_ZERO_FRACTION SPIRIX_AMBIGUOUS_EXPONENT \<and>
   (let s' = spirix_gpu_safe_divide 2
               SPIRIX_UNDEF_NEGLIGIBLE_DIV_NEGLIGIBLE SPIRIX_AMBIGUOUS_EXPONENT
               SPIRIX_ZERO_FRACTION SPIRIX_AMBIGUOUS_EXPONENT 0 1 (\<lambda>_. 0)
    in s' 0 = SPIRIX_INFINITY_FRACTION \<and>
       s' 1 = SPIRIX_AMBIGUOUS_EXPONENT \<and>
       spirix_is_infinity (s' 0) (s' 1) \<and>
       \<not> spirix_is_undefined (s' 0) (s' 1))"
proof -
  have ne: "(0 :: addr) \<noteq> 1" by simp
  from safe_divide_undefined_by_zero
         [OF zero_div_zero_literal_is_undefined zero_literal_is_zero, of 2 0 1 "\<lambda>_. 0"]
       ne zero_div_zero_literal_is_undefined zero_literal_is_zero
  show ?thesis by blast
qed

end
